theory Spec2Isabelle
  imports Main "HOL-Library.Stream" "HOL-Library.Multiset"
begin

section \<open>Data model of \<^verbatim>\<open>main.py\<close>\<close>

text \<open>
  The board generator of \<^verbatim>\<open>main.py\<close> works on plain Python values: tile ids and
  production numbers are integers, terrain letters, compass directions and port kinds are
  strings, an edge of the board graph is a triple \<^verbatim>\<open>(from, to, direction)\<close>, a port is
  a triple \<^verbatim>\<open>(tile, direction, kind)\<close>, and \<^verbatim>\<open>Tile\<close> is a named tuple with the
  fields \<^verbatim>\<open>id\<close>, \<^verbatim>\<open>terrain\<close> and \<^verbatim>\<open>value\<close> (the value of the desert is
  \<^verbatim>\<open>None\<close>). The pairs \<^verbatim>\<open>(terrain, value)\<close> built inside \<^verbatim>\<open>_generate\<close> are
  called tile data; a value that is present is tagged \<open>Some\<close>.
\<close>

type_synonym edge = "int \<times> int \<times> string"
type_synonym port = "int \<times> string \<times> string"
type_synonym tile_data = "string \<times> int option"
type_synonym options = "string \<rightharpoonup> bool"

record Tile =
  tile_id :: int
  tile_terrain :: string
  tile_value :: "int option"

text \<open>The exceptions the modelled code can raise.\<close>

datatype error = KeyError string | IndexError | StopIteration

subsection \<open>Class constants of \<^verbatim>\<open>Board\<close>\<close>

definition Board_terrain :: "string list" where
  "Board_terrain =
     replicate 4 ''F'' @ replicate 4 ''P'' @ replicate 4 ''H'' @ replicate 3 ''M''
       @ replicate 3 ''C''"

definition Board_numbers :: "int list" where
  "Board_numbers = [5, 2, 6, 3, 8, 10, 9, 12, 11, 4, 8, 10, 9, 4, 5, 6, 3, 11]"

definition Board_ports :: "string list" where
  "Board_ports = [''?'', ''O'', ''G'', ''?'', ''L'', ''B'', ''?'', ''?'', ''W'']"

definition Board_graph :: "edge list" where
  "Board_graph =
     [(1,  2,  ''SW''), (1,  12, ''E'' ), (1,  13, ''SE''),
      (2,  3,  ''SW''), (2,  13, ''E'' ), (2,  14, ''SE''),
      (3,  4,  ''SE''), (3,  14, ''E'' ),
      (4,  5,  ''SE''), (4,  14, ''NE''), (4,  15, ''E'' ),
      (5,  6,  ''E'' ), (5,  15, ''NE''),
      (6,  7,  ''E'' ), (6,  15, ''NW''), (6,  16, ''NE''),
      (7,  8,  ''NE''), (7,  16, ''NW''),
      (8,  9,  ''NE''), (8,  16, ''W'' ), (8,  17, ''NW''),
      (9,  10, ''NW''), (9,  17, ''W'' ),
      (10, 11, ''NW''), (10, 17, ''SW''), (10, 18, ''W'' ),
      (11, 12, ''W'' ), (11, 18, ''SW''),
      (12, 13, ''SW''), (12, 18, ''SE''),
      (13, 14, ''SW''), (13, 18, ''E'' ), (13, 19, ''SE''),
      (14, 15, ''SE''), (14, 19, ''E'' ),
      (15, 16, ''E'' ), (15, 19, ''NE''),
      (16, 17, ''NE''), (16, 19, ''NW''),
      (17, 18, ''NW''), (17, 19, ''W'' ),
      (18, 19, ''SW'')]"

definition Board_port_locations :: "(int \<times> string) list" where
  "Board_port_locations =
     [(1, ''NW''), (2,  ''W''),  (4,  ''W'' ),
      (5, ''SW''), (6,  ''SE''), (8,  ''SE''),
      (9, ''E'' ), (10, ''NE''), (12, ''NE'')]"

subsection \<open>Python list primitives\<close>

text \<open>
  Subscription \<^verbatim>\<open>xs[i]\<close> of a list of length \<^verbatim>\<open>n\<close>: the indices \<^verbatim>\<open>0 .. n - 1\<close> select
  from the front, the indices \<^verbatim>\<open>-n .. -1\<close> from the back, and every other index makes
  Python raise \<^verbatim>\<open>IndexError\<close>.
\<close>

definition py_nth :: "'a list \<Rightarrow> int \<Rightarrow> error + 'a" where
  "py_nth xs i =
     (if 0 \<le> i \<and> i < int (length xs) then Inr (xs ! nat i)
      else if i < 0 \<and> - int (length xs) \<le> i then Inr (xs ! nat (int (length xs) + i))
      else Inl IndexError)"

text \<open>
  \<^verbatim>\<open>xs.insert(k, x)\<close> for an index \<^verbatim>\<open>k \<ge> 0\<close> (the only indices
  \<^verbatim>\<open>random.randrange\<close> produces): the element goes before position \<^verbatim>\<open>k\<close>, and at
  the end when \<^verbatim>\<open>k\<close> is at least the length.
\<close>

definition list_insert :: "'a list \<Rightarrow> nat \<Rightarrow> 'a \<Rightarrow> 'a list" where
  "list_insert xs k x = take k xs @ x # drop k xs"

text \<open>\<^verbatim>\<open>enumerate(xs, start)\<close>.\<close>

primrec py_enumerate :: "int \<Rightarrow> 'a list \<Rightarrow> (int \<times> 'a) list" where
  "py_enumerate start [] = []"
| "py_enumerate start (x # xs) = (start, x) # py_enumerate (start + 1) xs"

subsection \<open>The random module\<close>

text \<open>
  The module-level generator of \<^verbatim>\<open>random\<close> is a hidden global state. It is modelled
  as the infinite stream of the outcomes it is going to deliver: a call \<^verbatim>\<open>randbelow(n)\<close>
  takes the head of the stream, reduced into \<^verbatim>\<open>range(n)\<close>, and leaves the tail. Every
  value of \<^verbatim>\<open>range(n)\<close> is the outcome for some stream, so quantifying over streams
  covers every run. \<^verbatim>\<open>random.randrange(n)\<close> is one such call, and
  \<^verbatim>\<open>random.shuffle(x)\<close> is the library's exchange loop
  \<^verbatim>\<open>for i in reversed(range(1, len(x))): j = randbelow(i + 1); x[i], x[j] = x[j], x[i]\<close>.
\<close>

definition randbelow :: "nat \<Rightarrow> nat stream \<Rightarrow> nat \<times> nat stream" where
  "randbelow n r = (shd r mod n, stl r)"

definition randrange :: "nat \<Rightarrow> nat stream \<Rightarrow> nat \<times> nat stream" where
  "randrange n r = randbelow n r"

primrec shuffle_loop :: "nat \<Rightarrow> 'a list \<Rightarrow> nat stream \<Rightarrow> 'a list \<times> nat stream" where
  "shuffle_loop 0 x r = (x, r)"
| "shuffle_loop (Suc i') x r =
     (let i = Suc i';
          (j, r') = randbelow (i + 1) r
      in shuffle_loop i' (x[i := x ! j, j := x ! i]) r')"

definition shuffle :: "'a list \<Rightarrow> nat stream \<Rightarrow> 'a list \<times> nat stream" where
  "shuffle x r = shuffle_loop (length x - 1) x r"

section \<open>The board generator\<close>

text \<open>
  The state \<^verbatim>\<open>_generate\<close> works on: the global random generator, and the attribute
  \<^verbatim>\<open>self.ports\<close> of the board under construction (\<open>None\<close> while it has not been
  assigned).
\<close>

record state =
  random_state :: "nat stream"
  self_ports :: "port list option"

definition is_red :: "int option \<Rightarrow> bool" where
  "is_red v = (v = Some 6 \<or> v = Some 8)"

text \<open>
  \<^verbatim>\<open>Board._check_red_placement\<close>: the loop over the edges of the graph, stopping with
  \<^verbatim>\<open>False\<close> at the first edge whose two tiles both carry 6 or 8.
\<close>

fun check_red_placement :: "edge list \<Rightarrow> tile_data list \<Rightarrow> error + bool" where
  "check_red_placement [] tiles = Inr True"
| "check_red_placement ((i1, i2, _) # graph) tiles =
     (case py_nth tiles (i1 - 1) of
        Inl e \<Rightarrow> Inl e
      | Inr t1 \<Rightarrow>
          (case py_nth tiles (i2 - 1) of
             Inl e \<Rightarrow> Inl e
           | Inr t2 \<Rightarrow>
               if list_all (\<lambda>t. is_red (snd t)) [t1, t2] then Inr False
               else check_red_placement graph tiles))"

text \<open>
  One pass through the body of the \<^verbatim>\<open>while True\<close> loop of \<^verbatim>\<open>Board._generate\<close>
  ends in one of three ways: an exception, the \<^verbatim>\<open>continue\<close> after a rejected
  placement, or the \<^verbatim>\<open>return\<close> of the tiles.
\<close>

datatype step = Raise error | Continue | Return "Tile list"

text \<open>
  The comprehension of the \<^verbatim>\<open>return\<close> statement,
  \<^verbatim>\<open>[Tile(id=i, terrain=t, value=v) for i, (t, v) in enumerate(tile_data, 1)]\<close>.
\<close>

definition tiles_from :: "tile_data list \<Rightarrow> Tile list" where
  "tiles_from tile_data =
     map (\<lambda>(i, (t, v)). \<lparr>tile_id = i, tile_terrain = t, tile_value = v\<rparr>)
       (py_enumerate 1 tile_data)"

definition generate_body :: "options \<Rightarrow> state \<Rightarrow> step \<times> state" where
  "generate_body options st =
     (let terrain = Board_terrain;
          numbers = Board_numbers;
          ports = Board_ports;
          (terrain, r1) = shuffle terrain (random_state st)
      in (case options ''randomize_production'' of
            None \<Rightarrow> (Raise (KeyError ''randomize_production''), st\<lparr>random_state := r1\<rparr>)
          | Some randomize_production \<Rightarrow>
     (let (numbers, r2) =
            (if randomize_production then shuffle numbers r1 else (numbers, r1))
      in (case options ''randomize_ports'' of
            None \<Rightarrow> (Raise (KeyError ''randomize_ports''), st\<lparr>random_state := r2\<rparr>)
          | Some randomize_ports \<Rightarrow>
     (let (ports, r3) = (if randomize_ports then shuffle ports r2 else (ports, r2));
          new_ports =
            map (\<lambda>((tile, dir), v). (tile, dir, v)) (zip Board_port_locations ports);
          tile_data = zip terrain (map Some numbers);
          (k, r4) = randrange (length tile_data + 1) r3;
          tile_data = list_insert tile_data k (''D'', None);
          st' = \<lparr>random_state = r4, self_ports = Some new_ports\<rparr>;
          tiles = tiles_from tile_data
      in if randomize_production then
           (case check_red_placement Board_graph tile_data of
              Inl e \<Rightarrow> (Raise e, st')
            | Inr ok \<Rightarrow> if \<not> ok then (Continue, st') else (Return tiles, st'))
         else (Return tiles, st'))))))"

text \<open>
  \<^verbatim>\<open>Board._generate\<close>: the loop itself. It has no bound on the number of passes, so
  the result is optional: \<open>None\<close> stands for a run that never leaves the loop.
\<close>

partial_function (option) Board_generate ::
  "options \<Rightarrow> state \<Rightarrow> ((error + Tile list) \<times> state) option" where
  "Board_generate options st =
     (case generate_body options st of
        (Raise e, st') \<Rightarrow> Some (Inl e, st')
      | (Continue, st') \<Rightarrow> Board_generate options st'
      | (Return tiles, st') \<Rightarrow> Some (Inr tiles, st'))"

section \<open>Queries on the board graph\<close>

text \<open>The module-level dictionary \<^verbatim>\<open>_direction_pairs\<close> and \<^verbatim>\<open>invert\<close>.\<close>

definition direction_pairs :: "string \<rightharpoonup> string" where
  "direction_pairs =
     map_of [(''E'', ''W''), (''SW'', ''NE''), (''SE'', ''NW''),
             (''W'', ''E''), (''NE'', ''SW''), (''NW'', ''SE'')]"

definition invert :: "edge \<Rightarrow> error + edge" where
  "invert edge =
     (case edge of (e0, e1, e2) \<Rightarrow>
        (case direction_pairs e2 of
           None \<Rightarrow> Inl (KeyError e2)
         | Some d \<Rightarrow> Inr (e1, e0, d)))"

text \<open>
  A list comprehension \<^verbatim>\<open>[f(e) for e in xs]\<close> whose \<^verbatim>\<open>f\<close> may raise: the first
  exception ends it.
\<close>

primrec map_raise :: "('a \<Rightarrow> error + 'b) \<Rightarrow> 'a list \<Rightarrow> error + 'b list" where
  "map_raise f [] = Inr []"
| "map_raise f (x # xs) =
     (case f x of
        Inl e \<Rightarrow> Inl e
      | Inr y \<Rightarrow> (case map_raise f xs of Inl e \<Rightarrow> Inl e | Inr ys \<Rightarrow> Inr (y # ys)))"

text \<open>
  \<^verbatim>\<open>Board._edges_for\<close> and \<^verbatim>\<open>Board.direction\<close>; the graph is the attribute
  \<^verbatim>\<open>self._graph\<close>. \<^verbatim>\<open>next\<close> on a generator that yields nothing raises
  \<^verbatim>\<open>StopIteration\<close>.
\<close>

definition edges_for :: "edge list \<Rightarrow> Tile \<Rightarrow> error + edge list" where
  "edges_for graph tile =
     (case map_raise invert (filter (\<lambda>e. fst (snd e) = tile_id tile) graph) of
        Inl err \<Rightarrow> Inl err
      | Inr inverted \<Rightarrow> Inr (filter (\<lambda>e. fst e = tile_id tile) graph @ inverted))"

definition direction :: "edge list \<Rightarrow> Tile \<Rightarrow> Tile \<Rightarrow> error + string" where
  "direction graph src dst =
     (case edges_for graph src of
        Inl err \<Rightarrow> Inl err
      | Inr es \<Rightarrow>
          (case find (\<lambda>e. fst (snd e) = tile_id dst) es of
             None \<Rightarrow> Inl StopIteration
           | Some e \<Rightarrow> Inr (snd (snd e))))"

text \<open>
  Two slots are adjacent in a graph when one of its stored edges joins them, in either
  order.
\<close>

definition adjacent :: "edge list \<Rightarrow> int \<Rightarrow> int \<Rightarrow> bool" where
  "adjacent graph a b =
     list_ex (\<lambda>e. (fst e = a \<and> fst (snd e) = b) \<or> (fst e = b \<and> fst (snd e) = a)) graph"

section \<open>Construction of a board\<close>

record Board =
  board_options :: options
  board_tiles :: "Tile list"
  board_ports :: "port list option"
  center_tile :: Tile
  board_graph :: "edge list"

text \<open>
  \<^verbatim>\<open>Board.__init__(self, options, tiles=None, graph=None, center=1)\<close>. The operands of
  \<^verbatim>\<open>or\<close> and the condition of \<^verbatim>\<open>if graph\<close> are tested for truth: \<^verbatim>\<open>None\<close>, an
  empty list and the number 0 are false.
\<close>

definition Board_init ::
  "options \<Rightarrow> Tile list option \<Rightarrow> edge list option \<Rightarrow> int option \<Rightarrow> nat stream
     \<Rightarrow> ((error + Board) \<times> nat stream) option" where
  "Board_init options tiles graph center r =
     (let st = \<lparr>random_state = r, self_ports = None\<rparr>
      in case (case tiles of
                 Some (t # ts) \<Rightarrow> Some (Inr (t # ts), st)
               | _ \<Rightarrow> Board_generate options st) of
           None \<Rightarrow> None
         | Some (Inl err, st') \<Rightarrow> Some (Inl err, random_state st')
         | Some (Inr self_tiles, st') \<Rightarrow>
             (case py_nth self_tiles
                     (case center of None \<Rightarrow> 10 | Some c \<Rightarrow> if c = 0 then 10 else c) of
                Inl err \<Rightarrow> Some (Inl err, random_state st')
              | Inr c \<Rightarrow>
                  Some (Inr \<lparr>board_options = options,
                             board_tiles = self_tiles,
                             board_ports = self_ports st',
                             center_tile = c,
                             board_graph =
                               (case graph of Some (e # es) \<Rightarrow> e # es | _ \<Rightarrow> Board_graph)\<rparr>,
                        random_state st')))"

text \<open>The call \<^verbatim>\<open>Board(options)\<close>, as \<^verbatim>\<open>main\<close>, \<^verbatim>\<open>redraw\<close> and the test make it.\<close>

definition Board_new :: "options \<Rightarrow> nat stream \<Rightarrow> ((error + Board) \<times> nat stream) option" where
  "Board_new options r = Board_init options None None (Some 1) r"

section \<open>Reading the values of a board\<close>

text \<open>
  The values of the tiles that have one, in board order, and the list the test
  \<^verbatim>\<open>test_tile_iterator\<close> compares with \<^verbatim>\<open>board._numbers\<close>,
  \<^verbatim>\<open>[t.value for t in board.tiles if t.value]\<close>: the condition of the comprehension is
  a truth test, false for \<^verbatim>\<open>None\<close> and for 0.
\<close>

definition non_null_values :: "Tile list \<Rightarrow> int list" where
  "non_null_values tiles = map (the \<circ> tile_value) (filter (\<lambda>t. tile_value t \<noteq> None) tiles)"

definition tested_values :: "Tile list \<Rightarrow> int option list" where
  "tested_values tiles =
     map tile_value (filter (\<lambda>t. tile_value t \<noteq> None \<and> tile_value t \<noteq> Some 0) tiles)"

section \<open>Sample runs\<close>

text \<open>
  A generator that delivers 0 at every call makes each exchange loop rotate its list by
  one place and puts the desert first. The first pass of \<^verbatim>\<open>_generate\<close> is then
  accepted with both options switched on; these are its tile data, and the tile data with
  both options switched off.
\<close>

definition all_random :: options where
  "all_random = [''randomize_production'' \<mapsto> True, ''randomize_ports'' \<mapsto> True]"

definition none_random :: options where
  "none_random = [''randomize_production'' \<mapsto> False, ''randomize_ports'' \<mapsto> False]"

definition zero_state :: state where
  "zero_state = \<lparr>random_state = sconst 0, self_ports = None\<rparr>"

definition zero_ports_shuffled :: "port list" where
  "zero_ports_shuffled =
     [(1, ''NW'', ''O''), (2, ''W'', ''G''), (4, ''W'', ''?''), (5, ''SW'', ''L''),
      (6, ''SE'', ''B''), (8, ''SE'', ''?''), (9, ''E'', ''?''), (10, ''NE'', ''W''),
      (12, ''NE'', ''?'')]"

definition zero_ports_fixed :: "port list" where
  "zero_ports_fixed =
     [(1, ''NW'', ''?''), (2, ''W'', ''O''), (4, ''W'', ''G''), (5, ''SW'', ''?''),
      (6, ''SE'', ''L''), (8, ''SE'', ''B''), (9, ''E'', ''?''), (10, ''NE'', ''?''),
      (12, ''NE'', ''W'')]"

definition zero_data_shuffled :: "tile_data list" where
  "zero_data_shuffled =
     [(''D'', None), (''F'', Some 2), (''F'', Some 6), (''F'', Some 3), (''P'', Some 8),
      (''P'', Some 10), (''P'', Some 9), (''P'', Some 12), (''H'', Some 11), (''H'', Some 4),
      (''H'', Some 8), (''H'', Some 10), (''M'', Some 9), (''M'', Some 4), (''M'', Some 5),
      (''C'', Some 6), (''C'', Some 3), (''C'', Some 11), (''F'', Some 5)]"

definition zero_data_fixed :: "tile_data list" where
  "zero_data_fixed =
     [(''D'', None), (''F'', Some 5), (''F'', Some 2), (''F'', Some 6), (''P'', Some 3),
      (''P'', Some 8), (''P'', Some 10), (''P'', Some 9), (''H'', Some 12), (''H'', Some 11),
      (''H'', Some 4), (''H'', Some 8), (''M'', Some 10), (''M'', Some 9), (''M'', Some 4),
      (''C'', Some 5), (''C'', Some 6), (''C'', Some 3), (''F'', Some 11)]"

text \<open>
  A third run, in which the loop goes round twice. The generator delivers 0 to the three
  exchange loops of the first pass and 18 to its \<^verbatim>\<open>randrange\<close>, which puts the desert
  last; slots 4 and 15 then carry 8 and 6, the check fails, and the second pass is the
  accepted pass of the first sample run.
\<close>

definition retry_state :: state where
  "retry_state =
     \<lparr>random_state = replicate 17 0 @- replicate 17 0 @- replicate 8 0 @- [18] @- sconst 0,
      self_ports = None\<rparr>"

definition rejected_data :: "tile_data list" where
  "rejected_data =
     [(''F'', Some 2), (''F'', Some 6), (''F'', Some 3), (''P'', Some 8), (''P'', Some 10),
      (''P'', Some 9), (''P'', Some 12), (''H'', Some 11), (''H'', Some 4), (''H'', Some 8),
      (''H'', Some 10), (''M'', Some 9), (''M'', Some 4), (''M'', Some 5), (''C'', Some 6),
      (''C'', Some 3), (''C'', Some 11), (''F'', Some 5), (''D'', None)]"

section \<open>The exchange loop permutes\<close>

lemma shuffle_loop_mset:
  "n < length x \<Longrightarrow> mset (fst (shuffle_loop n x r)) = mset x"
proof (induction n arbitrary: x r)
  case 0
  show ?case by simp
next
  case (Suc n)
  let ?j = "shd r mod (Suc n + 1)"
  have j: "?j < length x" using Suc.prems
    by (metis Suc_eq_plus1 less_Suc_eq_le mod_less_divisor order_le_less_trans zero_less_Suc)
  have "mset (x[Suc n := x ! ?j, ?j := x ! Suc n]) = mset x"
    using Suc.prems j by (simp add: mset_swap)
  moreover have "n < length (x[Suc n := x ! ?j, ?j := x ! Suc n])"
    using Suc.prems by simp
  ultimately show ?case
    using Suc.IH [of "x[Suc n := x ! ?j, ?j := x ! Suc n]" "stl r"]
    by (simp add: randbelow_def)
qed

lemma shuffle_mset: "mset (fst (shuffle x r)) = mset x"
proof (cases x)
  case Nil
  then show ?thesis by (simp add: shuffle_def)
next
  case (Cons a as)
  then show ?thesis unfolding shuffle_def by (intro shuffle_loop_mset) simp
qed

lemma shuffle_length: "length (fst (shuffle x r)) = length x"
  using shuffle_mset [of x r] by (metis size_mset)

section \<open>List primitives\<close>

lemma py_enumerate_length: "length (py_enumerate s xs) = length xs"
  by (induction xs arbitrary: s) simp_all

lemma py_enumerate_nth:
  "i < length xs \<Longrightarrow> py_enumerate s xs ! i = (s + int i, xs ! i)"
proof (induction xs arbitrary: s i)
  case Nil
  then show ?case by simp
next
  case (Cons x xs)
  then show ?case by (cases i) (simp_all add: algebra_simps)
qed

lemma py_enumerate_fst:
  "map fst (py_enumerate s xs) = [s..s + int (length xs) - 1]"
proof (induction xs arbitrary: s)
  case Nil
  then show ?case by simp
next
  case (Cons x xs)
  have "[s..s + int (length (x # xs)) - 1] = s # [s + 1..s + 1 + int (length xs) - 1]"
    by (subst upto_rec1) (simp_all add: algebra_simps)
  with Cons show ?case by simp
qed

lemma py_enumerate_snd: "map snd (py_enumerate s xs) = xs"
  by (induction xs arbitrary: s) simp_all

lemma py_nth_in_range:
  assumes "1 \<le> i" "i \<le> int (length xs)"
  shows "py_nth xs (i - 1) = Inr (xs ! nat (i - 1))"
  using assms by (simp add: py_nth_def Let_def)

lemma insert_length: "length (list_insert xs k x) = Suc (length xs)"
  by (simp add: list_insert_def)

lemma insert_mset: "mset (list_insert xs k x) = add_mset x (mset xs)"
proof -
  have "mset (take k xs) + mset (drop k xs) = mset xs"
    by (metis append_take_drop_id mset_append)
  then show ?thesis by (simp add: list_insert_def)
qed

lemma insert_map: "map f (list_insert xs k x) = list_insert (map f xs) k (f x)"
  by (simp add: list_insert_def take_map drop_map)

lemma insert_filter_out:
  assumes "\<not> P x"
  shows "filter P (list_insert xs k x) = filter P xs"
proof -
  have "filter P (take k xs) @ filter P (drop k xs) = filter P xs"
    by (metis append_take_drop_id filter_append)
  with assms show ?thesis by (simp add: list_insert_def)
qed

lemma insert_filter_in:
  assumes "P x" "filter P xs = []"
  shows "filter P (list_insert xs k x) = [x]"
proof -
  have "filter P (take k xs) @ filter P (drop k xs) = []"
    using assms(2) by (metis append_take_drop_id filter_append)
  with assms(1) show ?thesis by (simp add: list_insert_def)
qed

section \<open>Tiles built from tile data\<close>

lemma tiles_from_length: "length (tiles_from td) = length td"
  by (simp add: tiles_from_def py_enumerate_length)

lemma tiles_from_id: "map tile_id (tiles_from td) = [1..int (length td)]"
proof -
  have "map tile_id (tiles_from td) = map fst (py_enumerate 1 td)"
    by (simp add: tiles_from_def case_prod_unfold)
  then show ?thesis by (simp add: py_enumerate_fst)
qed

lemma tiles_from_pairs:
  "map (\<lambda>t. (tile_terrain t, tile_value t)) (tiles_from td) = td"
proof -
  have "map (\<lambda>t. (tile_terrain t, tile_value t)) (tiles_from td) = map snd (py_enumerate 1 td)"
    by (simp add: tiles_from_def case_prod_unfold)
  then show ?thesis by (simp add: py_enumerate_snd)
qed

lemma tiles_from_terrain: "map tile_terrain (tiles_from td) = map fst td"
proof -
  have "map tile_terrain (tiles_from td) =
      map fst (map (\<lambda>t. (tile_terrain t, tile_value t)) (tiles_from td))"
    by simp
  then show ?thesis by (simp only: tiles_from_pairs)
qed

lemma tiles_from_value: "map tile_value (tiles_from td) = map snd td"
proof -
  have "map tile_value (tiles_from td) =
      map snd (map (\<lambda>t. (tile_terrain t, tile_value t)) (tiles_from td))"
    by simp
  then show ?thesis by (simp only: tiles_from_pairs)
qed

lemma tiles_from_nth:
  assumes "1 \<le> i" "i \<le> int (length td)"
  shows "py_nth (tiles_from td) (i - 1) =
           Inr \<lparr>tile_id = i, tile_terrain = fst (td ! nat (i - 1)),
                tile_value = snd (td ! nat (i - 1))\<rparr>"
proof -
  have "nat (i - 1) < length td" using assms by simp
  then have "tiles_from td ! nat (i - 1) =
      \<lparr>tile_id = 1 + int (nat (i - 1)), tile_terrain = fst (td ! nat (i - 1)),
                tile_value = snd (td ! nat (i - 1))\<rparr>"
    by (simp add: tiles_from_def py_enumerate_length py_enumerate_nth case_prod_unfold)
  with assms show ?thesis
    by (simp add: py_nth_def tiles_from_length Let_def)
qed

section \<open>What a run of the generator returns\<close>

lemma check_red_placement_True:
  assumes "check_red_placement graph td = Inr True" "(i1, i2, d) \<in> set graph"
  shows "\<exists>t1 t2. py_nth td (i1 - 1) = Inr t1 \<and> py_nth td (i2 - 1) = Inr t2 \<and>
           \<not> (is_red (snd t1) \<and> is_red (snd t2))"
  using assms
proof (induction graph td rule: check_red_placement.induct)
  case (1 tiles)
  then show ?case by simp
next
  case (2 j1 j2 uu graph tiles)
  then show ?case
    by (auto split: sum.splits if_splits)
qed

lemma Board_graph_ids:
  "(i1, i2, d) \<in> set Board_graph \<Longrightarrow> 1 \<le> i1 \<and> i1 \<le> 19 \<and> 1 \<le> i2 \<and> i2 \<le> 19"
  by (auto simp: Board_graph_def)

text \<open>A result of the loop is the result of its last pass.\<close>

lemma generate_last_pass:
  assumes "Board_generate options st = Some y"
  shows "\<exists>st0. generate_body options st0 =
           ((case fst y of Inl e \<Rightarrow> Raise e | Inr tiles \<Rightarrow> Return tiles), snd y)"
proof (rule Board_generate.raw_induct
    [where P = "\<lambda>options st y. \<exists>st0. generate_body options st0 =
           ((case fst y of Inl e \<Rightarrow> Raise e | Inr tiles \<Rightarrow> Return tiles), snd y)",
     OF _ assms], goal_cases)
  case (1 generate options st y)
  show ?case
  proof (cases "generate_body options st")
    case (Pair s st1)
    show ?thesis
    proof (cases s)
      case (Raise e)
      with Pair 1(2) have "generate_body options st =
          ((case fst y of Inl e \<Rightarrow> Raise e | Inr tiles \<Rightarrow> Return tiles), snd y)"
        by auto
      then show ?thesis ..
    next
      case Continue
      with Pair 1(2) have "generate options st1 = Some y" by simp
      then show ?thesis by (rule 1(1))
    next
      case (Return tiles)
      with Pair 1(2) have "generate_body options st =
          ((case fst y of Inl e \<Rightarrow> Raise e | Inr tiles \<Rightarrow> Return tiles), snd y)"
        by auto
      then show ?thesis ..
    qed
  qed
qed

text \<open>
  A pass that returns has read both options, paired a permutation of the terrain pool
  with the numbers (a permutation of the pool, the pool itself when production is not
  randomized), put the desert at one of the 19 places, and, when production is
  randomized, passed the check.
\<close>

lemma body_return:
  assumes "generate_body options st = (Return tiles, st')"
  shows "\<exists>rp rpt terrain numbers k.
           options ''randomize_production'' = Some rp \<and>
           options ''randomize_ports'' = Some rpt \<and>
           mset terrain = mset Board_terrain \<and>
           mset numbers = mset Board_numbers \<and>
           (\<not> rp \<longrightarrow> numbers = Board_numbers) \<and>
           k < 19 \<and>
           tiles = tiles_from (list_insert (zip terrain (map Some numbers)) k (''D'', None)) \<and>
           (rp \<longrightarrow> check_red_placement Board_graph
                    (list_insert (zip terrain (map Some numbers)) k (''D'', None)) = Inr True)"
proof -
  obtain terrain r1 where t: "shuffle Board_terrain (random_state st) = (terrain, r1)"
    by (cases "shuffle Board_terrain (random_state st)")
  have mt: "mset terrain = mset Board_terrain" and lt: "length terrain = 18"
    using shuffle_mset [of Board_terrain "random_state st"]
      shuffle_length [of Board_terrain "random_state st"] t
    by (simp_all add: Board_terrain_def)
  from assms t obtain rp where rp: "options ''randomize_production'' = Some rp"
    by (cases "options ''randomize_production''") (auto simp: generate_body_def)
  obtain numbers r2 where
    n: "(if rp then shuffle Board_numbers r1 else (Board_numbers, r1)) = (numbers, r2)"
    by (cases "if rp then shuffle Board_numbers r1 else (Board_numbers, r1)")
  have mn: "mset numbers = mset Board_numbers" and ln: "length numbers = 18"
    and nn: "\<not> rp \<Longrightarrow> numbers = Board_numbers"
    using shuffle_mset [of Board_numbers r1] shuffle_length [of Board_numbers r1] n
    by (auto simp: Board_numbers_def split: if_splits)
  from assms t rp n obtain rpt where rpt: "options ''randomize_ports'' = Some rpt"
    by (cases "options ''randomize_ports''") (auto simp: generate_body_def)
  obtain ports r3 where
    p: "(if rpt then shuffle Board_ports r2 else (Board_ports, r2)) = (ports, r3)"
    by (cases "if rpt then shuffle Board_ports r2 else (Board_ports, r2)")
  define k where "k = shd r3 mod 19"
  have k: "randrange (length (zip terrain (map Some numbers)) + 1) r3 = (k, stl r3)"
    by (simp add: randrange_def randbelow_def k_def lt ln)
  let ?td = "list_insert (zip terrain (map Some numbers)) k (''D'', None)"
  from assms t rp n rpt p k
  have "tiles = tiles_from ?td \<and> (rp \<longrightarrow> check_red_placement Board_graph ?td = Inr True)"
    by (auto simp: generate_body_def Let_def split: if_splits sum.splits)
  moreover have "k < 19" by (simp add: k_def)
  ultimately show ?thesis using rp rpt mt mn nn by blast
qed

lemma generate_shape:
  assumes "Board_generate options st = Some (Inr tiles, st')"
  shows "\<exists>rp rpt terrain numbers k.
           options ''randomize_production'' = Some rp \<and>
           options ''randomize_ports'' = Some rpt \<and>
           mset terrain = mset Board_terrain \<and>
           mset numbers = mset Board_numbers \<and>
           (\<not> rp \<longrightarrow> numbers = Board_numbers) \<and>
           k < 19 \<and>
           tiles = tiles_from (list_insert (zip terrain (map Some numbers)) k (''D'', None)) \<and>
           (rp \<longrightarrow> check_red_placement Board_graph
                    (list_insert (zip terrain (map Some numbers)) k (''D'', None)) = Inr True)"
proof -
  from generate_last_pass [OF assms]
  obtain st0 where "generate_body options st0 = (Return tiles, st')" by auto
  then show ?thesis by (rule body_return)
qed

lemma pool_sizes:
  assumes "mset terrain = mset Board_terrain" "mset numbers = mset Board_numbers"
  shows "length terrain = 18" "length numbers = 18"
proof -
  have "length terrain = length Board_terrain" using assms(1) by (metis size_mset)
  then show "length terrain = 18" by (simp add: Board_terrain_def)
  have "length numbers = length Board_numbers" using assms(2) by (metis size_mset)
  then show "length numbers = 18" by (simp add: Board_numbers_def)
qed

text \<open>The same, told of the three columns of the returned tiles.\<close>

lemma generate_columns:
  assumes "Board_generate options st = Some (Inr tiles, st')"
  shows "\<exists>rp terrain numbers k.
           options ''randomize_production'' = Some rp \<and>
           mset terrain = mset Board_terrain \<and>
           mset numbers = mset Board_numbers \<and>
           (\<not> rp \<longrightarrow> numbers = Board_numbers) \<and>
           length tiles = 19 \<and>
           map tile_id tiles = [1..19] \<and>
           map tile_terrain tiles = list_insert terrain k ''D'' \<and>
           map tile_value tiles = list_insert (map Some numbers) k None"
proof -
  from generate_shape [OF assms] obtain rp rpt terrain numbers k where
    rp: "options ''randomize_production'' = Some rp" and
    mt: "mset terrain = mset Board_terrain" and
    mn: "mset numbers = mset Board_numbers" and
    nn: "\<not> rp \<longrightarrow> numbers = Board_numbers" and
    tiles: "tiles = tiles_from (list_insert (zip terrain (map Some numbers)) k (''D'', None))"
    by blast
  note len = pool_sizes [OF mt mn]
  let ?td = "list_insert (zip terrain (map Some numbers)) k (''D'', None)"
  have l: "length ?td = 19" by (simp add: insert_length len)
  have "map fst ?td = list_insert terrain k ''D''"
    by (simp add: insert_map len)
  moreover have "map snd ?td = list_insert (map Some numbers) k None"
    by (simp add: insert_map len)
  ultimately show ?thesis
    using rp mt mn nn l tiles
    by (auto simp: tiles_from_length tiles_from_id tiles_from_terrain tiles_from_value)
qed


section \<open>The sample runs, evaluated\<close>

lemma shuffle_loop_pos:
  "0 < n \<Longrightarrow> shuffle_loop n x r =
     shuffle_loop (n - 1) (x[n := x ! (shd r mod (n + 1)), shd r mod (n + 1) := x ! n]) (stl r)"
  by (cases n) (simp_all add: randbelow_def)

lemma list_update_numeral:
  "(x # xs)[numeral k := v] = x # xs[pred_numeral k := v]"
  by (simp add: numeral_eq_Suc)

lemma Board_terrain_list:
  "Board_terrain =
     [''F'', ''F'', ''F'', ''F'', ''P'', ''P'', ''P'', ''P'', ''H'', ''H'', ''H'', ''H'',
      ''M'', ''M'', ''M'', ''C'', ''C'', ''C'']"
  unfolding Board_terrain_def by code_simp

lemma shuffle_terrain_zero:
  "shuffle Board_terrain (sconst 0) =
     ([''F'', ''F'', ''F'', ''P'', ''P'', ''P'', ''P'', ''H'', ''H'', ''H'', ''H'',
       ''M'', ''M'', ''M'', ''C'', ''C'', ''C'', ''F''], sconst 0)"
proof -
  have "length Board_terrain - 1 = 17"
    by (simp add: Board_terrain_list)
  then have "shuffle Board_terrain (sconst 0) = shuffle_loop 17 Board_terrain (sconst 0)"
    by (simp only: shuffle_def)
  also have "\<dots> =
     ([''F'', ''F'', ''F'', ''P'', ''P'', ''P'', ''P'', ''H'', ''H'', ''H'', ''H'',
       ''M'', ''M'', ''M'', ''C'', ''C'', ''C'', ''F''], sconst 0)"
    unfolding Board_terrain_list
    by (simp add: shuffle_loop_pos randbelow_def list_update_numeral list_update_code(2,3)
        del: list_update.simps)
  finally show ?thesis .
qed

lemma shuffle_numbers_zero:
  "shuffle Board_numbers (sconst 0) =
     ([2, 6, 3, 8, 10, 9, 12, 11, 4, 8, 10, 9, 4, 5, 6, 3, 11, 5], sconst 0)"
proof -
  have "length Board_numbers - 1 = 17"
    by (simp add: Board_numbers_def)
  then have "shuffle Board_numbers (sconst 0) = shuffle_loop 17 Board_numbers (sconst 0)"
    by (simp only: shuffle_def)
  also have "\<dots> = ([2, 6, 3, 8, 10, 9, 12, 11, 4, 8, 10, 9, 4, 5, 6, 3, 11, 5], sconst 0)"
    unfolding Board_numbers_def
    by (simp add: shuffle_loop_pos randbelow_def list_update_numeral list_update_code(2,3)
        del: list_update.simps)
  finally show ?thesis .
qed

lemma shuffle_ports_zero:
  "shuffle Board_ports (sconst 0) =
     ([''O'', ''G'', ''?'', ''L'', ''B'', ''?'', ''?'', ''W'', ''?''], sconst 0)"
proof -
  have "length Board_ports - 1 = 8"
    by (simp add: Board_ports_def)
  then have "shuffle Board_ports (sconst 0) = shuffle_loop 8 Board_ports (sconst 0)"
    by (simp only: shuffle_def)
  also have "\<dots> = ([''O'', ''G'', ''?'', ''L'', ''B'', ''?'', ''?'', ''W'', ''?''], sconst 0)"
    unfolding Board_ports_def
    by (simp add: shuffle_loop_pos randbelow_def list_update_numeral list_update_code(2,3)
        del: list_update.simps)
  finally show ?thesis .
qed

lemma check_zero_data: "check_red_placement Board_graph zero_data_shuffled = Inr True"
  by (simp add: Board_graph_def zero_data_shuffled_def py_nth_def is_red_def)

lemma body_all_random:
  "generate_body all_random zero_state =
     (Return (tiles_from zero_data_shuffled),
      \<lparr>random_state = sconst 0, self_ports = Some zero_ports_shuffled\<rparr>)"
  by (simp add: generate_body_def all_random_def zero_state_def zero_ports_shuffled_def
      shuffle_terrain_zero shuffle_numbers_zero shuffle_ports_zero
      Board_port_locations_def randrange_def randbelow_def list_insert_def check_zero_data
      zero_data_shuffled_def [symmetric])

lemma body_none_random:
  "generate_body none_random zero_state =
     (Return (tiles_from zero_data_fixed),
      \<lparr>random_state = sconst 0, self_ports = Some zero_ports_fixed\<rparr>)"
  by (simp add: generate_body_def none_random_def zero_state_def zero_ports_fixed_def
      shuffle_terrain_zero Board_numbers_def Board_ports_def
      Board_port_locations_def randrange_def randbelow_def list_insert_def
      zero_data_fixed_def)

lemma run_all_random:
  "Board_generate all_random zero_state =
     Some (Inr (tiles_from zero_data_shuffled),
           \<lparr>random_state = sconst 0, self_ports = Some zero_ports_shuffled\<rparr>)"
  by (subst Board_generate.simps) (simp add: body_all_random)

lemma run_none_random:
  "Board_generate none_random zero_state =
     Some (Inr (tiles_from zero_data_fixed),
           \<lparr>random_state = sconst 0, self_ports = Some zero_ports_fixed\<rparr>)"
  by (subst Board_generate.simps) (simp add: body_none_random)

lemma tiles_zero_shuffled:
  "tiles_from zero_data_shuffled =
     [\<lparr>tile_id = 1, tile_terrain = ''D'', tile_value = None\<rparr>,
      \<lparr>tile_id = 2, tile_terrain = ''F'', tile_value = Some 2\<rparr>,
      \<lparr>tile_id = 3, tile_terrain = ''F'', tile_value = Some 6\<rparr>,
      \<lparr>tile_id = 4, tile_terrain = ''F'', tile_value = Some 3\<rparr>,
      \<lparr>tile_id = 5, tile_terrain = ''P'', tile_value = Some 8\<rparr>,
      \<lparr>tile_id = 6, tile_terrain = ''P'', tile_value = Some 10\<rparr>,
      \<lparr>tile_id = 7, tile_terrain = ''P'', tile_value = Some 9\<rparr>,
      \<lparr>tile_id = 8, tile_terrain = ''P'', tile_value = Some 12\<rparr>,
      \<lparr>tile_id = 9, tile_terrain = ''H'', tile_value = Some 11\<rparr>,
      \<lparr>tile_id = 10, tile_terrain = ''H'', tile_value = Some 4\<rparr>,
      \<lparr>tile_id = 11, tile_terrain = ''H'', tile_value = Some 8\<rparr>,
      \<lparr>tile_id = 12, tile_terrain = ''H'', tile_value = Some 10\<rparr>,
      \<lparr>tile_id = 13, tile_terrain = ''M'', tile_value = Some 9\<rparr>,
      \<lparr>tile_id = 14, tile_terrain = ''M'', tile_value = Some 4\<rparr>,
      \<lparr>tile_id = 15, tile_terrain = ''M'', tile_value = Some 5\<rparr>,
      \<lparr>tile_id = 16, tile_terrain = ''C'', tile_value = Some 6\<rparr>,
      \<lparr>tile_id = 17, tile_terrain = ''C'', tile_value = Some 3\<rparr>,
      \<lparr>tile_id = 18, tile_terrain = ''C'', tile_value = Some 11\<rparr>,
      \<lparr>tile_id = 19, tile_terrain = ''F'', tile_value = Some 5\<rparr>]"
  by (simp add: tiles_from_def zero_data_shuffled_def)


text \<open>The run with a rejected first pass.\<close>

lemma shuffle_loop_zeros:
  "shuffle_loop n x (replicate n 0 @- r) = (fst (shuffle_loop n x (sconst 0)), r)"
proof (induction n arbitrary: x)
  case 0
  show ?case by simp
next
  case (Suc n)
  show ?case by (simp add: randbelow_def Suc.IH)
qed

lemma shuffle_zeros:
  assumes "length x = Suc n"
  shows "shuffle x (replicate n 0 @- r) = (fst (shuffle x (sconst 0)), r)"
  using assms by (simp add: shuffle_def shuffle_loop_zeros)

lemma check_rejected_data: "check_red_placement Board_graph rejected_data = Inr False"
  by (simp add: Board_graph_def rejected_data_def py_nth_def is_red_def)

lemma body_retry:
  "generate_body all_random retry_state =
     (Continue, \<lparr>random_state = sconst 0, self_ports = Some zero_ports_shuffled\<rparr>)"
proof -
  have t: "shuffle Board_terrain (replicate 17 0 @- r) = (fst (shuffle Board_terrain (sconst 0)), r)"
    for r :: "nat stream" by (rule shuffle_zeros) (simp add: Board_terrain_list)
  have n: "shuffle Board_numbers (replicate 17 0 @- r) = (fst (shuffle Board_numbers (sconst 0)), r)"
    for r :: "nat stream" by (rule shuffle_zeros) (simp add: Board_numbers_def)
  have p: "shuffle Board_ports (replicate 8 0 @- r) = (fst (shuffle Board_ports (sconst 0)), r)"
    for r :: "nat stream" by (rule shuffle_zeros) (simp add: Board_ports_def)
  show ?thesis
    by (simp add: generate_body_def all_random_def retry_state_def zero_ports_shuffled_def
      t n p shuffle_terrain_zero shuffle_numbers_zero shuffle_ports_zero
      Board_port_locations_def randrange_def randbelow_def list_insert_def check_rejected_data
      rejected_data_def [symmetric])
qed

lemma body_all_random_again:
  "generate_body all_random \<lparr>random_state = sconst 0, self_ports = p\<rparr> =
     (Return (tiles_from zero_data_shuffled),
      \<lparr>random_state = sconst 0, self_ports = Some zero_ports_shuffled\<rparr>)"
  by (simp add: generate_body_def all_random_def zero_ports_shuffled_def
      shuffle_terrain_zero shuffle_numbers_zero shuffle_ports_zero
      Board_port_locations_def randrange_def randbelow_def list_insert_def check_zero_data
      zero_data_shuffled_def [symmetric])

lemma run_retry:
  "Board_generate all_random retry_state =
     Some (Inr (tiles_from zero_data_shuffled),
           \<lparr>random_state = sconst 0, self_ports = Some zero_ports_shuffled\<rparr>)"
  by (subst Board_generate.simps, simp add: body_retry,
      subst Board_generate.simps, simp add: body_all_random_again)

section \<open>Properties of generated boards\<close>

text \<open>
  C1. Red adjacency: on every board that the generator returns with
  \<^verbatim>\<open>randomize_production\<close> true, each edge \<^verbatim>\<open>(i1, i2, dir)\<close> of the fixed graph has a
  tile at slot \<^verbatim>\<open>i1\<close> and a tile at slot \<^verbatim>\<open>i2\<close> (the tiles with these ids, at positions
  \<^verbatim>\<open>i1 - 1\<close> and \<^verbatim>\<open>i2 - 1\<close>), and the two do not both carry a value in \<open>{6, 8}\<close>.
\<close>

theorem red_adjacency_invariant:
  assumes "options ''randomize_production'' = Some True"
    and "Board_generate options st = Some (Inr tiles, st')"
    and "(i1, i2, d) \<in> set Board_graph"
  shows "\<exists>t1 t2. py_nth tiles (i1 - 1) = Inr t1 \<and> py_nth tiles (i2 - 1) = Inr t2 \<and>
           tile_id t1 = i1 \<and> tile_id t2 = i2 \<and>
           \<not> (tile_value t1 \<in> {Some 6, Some 8} \<and> tile_value t2 \<in> {Some 6, Some 8})"
proof -
  from generate_shape [OF assms(2)] assms(1) obtain terrain numbers k where
    mt: "mset terrain = mset Board_terrain" and
    mn: "mset numbers = mset Board_numbers" and
    tiles: "tiles = tiles_from (list_insert (zip terrain (map Some numbers)) k (''D'', None))" and
    chk: "check_red_placement Board_graph
            (list_insert (zip terrain (map Some numbers)) k (''D'', None)) = Inr True"
    by auto
  let ?td = "list_insert (zip terrain (map Some numbers)) k (''D'', None)"
  have l: "int (length ?td) = 19"
    by (simp add: insert_length pool_sizes [OF mt mn])
  from Board_graph_ids [OF assms(3)] l
  have r1: "1 \<le> i1" "i1 \<le> int (length ?td)" and r2: "1 \<le> i2" "i2 \<le> int (length ?td)"
    by simp_all
  from check_red_placement_True [OF chk assms(3)]
  have "\<not> (is_red (snd (?td ! nat (i1 - 1))) \<and> is_red (snd (?td ! nat (i2 - 1))))"
    by (simp add: py_nth_in_range [OF r1] py_nth_in_range [OF r2])
  then show ?thesis
    unfolding tiles by (simp add: tiles_from_nth [OF r1] tiles_from_nth [OF r2] is_red_def)
qed

theorem red_adjacency_invariant_witness:
  "all_random ''randomize_production'' = Some True \<and>
   Board_generate all_random zero_state =
     Some (Inr (tiles_from zero_data_shuffled),
           \<lparr>random_state = sconst 0, self_ports = Some zero_ports_shuffled\<rparr>) \<and>
   (3, 4, ''SE'') \<in> set Board_graph \<and>
   (\<exists>t1 t2. py_nth (tiles_from zero_data_shuffled) (3 - 1) = Inr t1 \<and>
        py_nth (tiles_from zero_data_shuffled) (4 - 1) = Inr t2 \<and>
        tile_id t1 = 3 \<and> tile_id t2 = 4 \<and>
        \<not> (tile_value t1 \<in> {Some 6, Some 8} \<and> tile_value t2 \<in> {Some 6, Some 8}))"
proof -
  have a: "all_random ''randomize_production'' = Some True"
    by (simp add: all_random_def)
  have c: "(3, 4, ''SE'') \<in> set Board_graph"
    by (simp add: Board_graph_def)
  from red_adjacency_invariant [OF a run_all_random c] a run_all_random c
  show ?thesis by blast
qed

text \<open>
  C6. On every board that the generator returns, whatever the options: exactly one tile
  has the terrain \<^verbatim>\<open>'D'\<close>, a tile has the value \<^verbatim>\<open>None\<close> if and only if it is that
  desert tile, and the ids of the tiles, in stored order, are 1, 2, ..., 19.
\<close>

theorem one_desert_ids_in_order:
  assumes "Board_generate options st = Some (Inr tiles, st')"
  shows "length (filter (\<lambda>t. tile_terrain t = ''D'') tiles) = 1 \<and>
         (\<forall>t \<in> set tiles. (tile_value t = None) = (tile_terrain t = ''D'')) \<and>
         map tile_id tiles = [1..19]"
proof -
  from generate_shape [OF assms] obtain terrain numbers k where
    mt: "mset terrain = mset Board_terrain" and
    mn: "mset numbers = mset Board_numbers" and
    tiles: "tiles = tiles_from (list_insert (zip terrain (map Some numbers)) k (''D'', None))"
    by blast
  note len = pool_sizes [OF mt mn]
  let ?z = "zip terrain (map Some numbers)"
  let ?td = "list_insert ?z k (''D'', None)"
  have "set terrain = set Board_terrain" using mt by (metis set_mset_mset)
  then have noD: "''D'' \<notin> set terrain" by (simp add: Board_terrain_def)
  have z: "fst p \<noteq> ''D'' \<and> snd p \<noteq> None" if "p \<in> set ?z" for p
  proof -
    from that have "fst p \<in> set terrain" and "snd p \<in> set (map Some numbers)"
      by (metis prod.collapse set_zip_leftD, metis prod.collapse set_zip_rightD)
    with noD show ?thesis by auto
  qed
  have "filter (\<lambda>p. fst p = ''D'') ?z = []"
    using z by (simp add: filter_empty_conv)
  then have "filter (\<lambda>p. fst p = ''D'') ?td = [(''D'', None)]"
    by (intro insert_filter_in) simp_all
  then have "length (filter (\<lambda>p. fst p = ''D'') ?td) = 1" by simp
  moreover have "filter (\<lambda>t. tile_terrain t = ''D'') tiles =
      filter ((\<lambda>p. fst p = ''D'') \<circ> (\<lambda>t. (tile_terrain t, tile_value t))) tiles"
    by (simp add: comp_def)
  ultimately have one: "length (filter (\<lambda>t. tile_terrain t = ''D'') tiles) = 1"
    using tiles_from_pairs [of ?td] unfolding tiles
    by (metis (no_types, lifting) filter_map length_map)
  have td_set: "set ?td = insert (''D'', None) (set ?z)"
    by (metis insert_mset set_mset_add_mset_insert set_mset_mset)
  have "(snd p = None) = (fst p = ''D'')" if "p \<in> set ?td" for p
  proof (cases "p = (''D'', None)")
    case True
    then show ?thesis by simp
  next
    case False
    with that td_set have "p \<in> set ?z" by simp
    from z [OF this] show ?thesis by simp
  qed
  moreover have "\<And>t. t \<in> set tiles \<Longrightarrow> (tile_terrain t, tile_value t) \<in> set ?td"
    using tiles_from_pairs [of ?td] unfolding tiles
    by (metis (no_types, lifting) image_eqI set_map)
  ultimately have iff: "\<forall>t \<in> set tiles. (tile_value t = None) = (tile_terrain t = ''D'')"
    by fastforce
  have "map tile_id tiles = [1..19]"
    unfolding tiles by (simp add: tiles_from_id insert_length len)
  with one iff show ?thesis by blast
qed

theorem one_desert_ids_in_order_witness:
  "Board_generate all_random zero_state =
     Some (Inr (tiles_from zero_data_shuffled),
           \<lparr>random_state = sconst 0, self_ports = Some zero_ports_shuffled\<rparr>) \<and>
   length (filter (\<lambda>t. tile_terrain t = ''D'') (tiles_from zero_data_shuffled)) = 1 \<and>
   \<lparr>tile_id = 1, tile_terrain = ''D'', tile_value = None\<rparr>
     \<in> set (tiles_from zero_data_shuffled) \<and>
   \<lparr>tile_id = 2, tile_terrain = ''F'', tile_value = Some 2\<rparr>
     \<in> set (tiles_from zero_data_shuffled) \<and>
   map tile_id (tiles_from zero_data_shuffled) = [1..19]"
proof -
  have "\<lparr>tile_id = 1, tile_terrain = ''D'', tile_value = None\<rparr>
          \<in> set (tiles_from zero_data_shuffled)"
    and "\<lparr>tile_id = 2, tile_terrain = ''F'', tile_value = Some 2\<rparr>
          \<in> set (tiles_from zero_data_shuffled)"
    by (simp_all add: tiles_zero_shuffled)
  with one_desert_ids_in_order [OF run_all_random] run_all_random
  show ?thesis by blast
qed


text \<open>The values that are present are the numbers the pass paired with the terrain.\<close>

lemma generate_values:
  assumes "Board_generate options st = Some (Inr tiles, st')"
  shows "\<exists>rp numbers.
           options ''randomize_production'' = Some rp \<and>
           mset numbers = mset Board_numbers \<and>
           (\<not> rp \<longrightarrow> numbers = Board_numbers) \<and>
           non_null_values tiles = numbers \<and>
           tested_values tiles = map Some numbers"
proof -
  from generate_columns [OF assms] obtain rp terrain numbers k where
    rp: "options ''randomize_production'' = Some rp" and
    mn: "mset numbers = mset Board_numbers" and
    nn: "\<not> rp \<longrightarrow> numbers = Board_numbers" and
    v: "map tile_value tiles = list_insert (map Some numbers) k None"
    by blast
  have "set numbers = set Board_numbers" using mn by (metis set_mset_mset)
  then have "0 \<notin> set numbers" by (simp add: Board_numbers_def)
  then have nz: "filter (\<lambda>v. v \<noteq> None \<and> v \<noteq> Some 0) (map Some numbers) = map Some numbers"
    by (auto simp: filter_id_conv)
  have "filter (\<lambda>v. v \<noteq> None) (map tile_value tiles) = map Some numbers"
    unfolding v by (simp add: insert_filter_out)
  then have "map the (filter (\<lambda>v. v \<noteq> None) (map tile_value tiles)) = numbers"
    by (simp add: comp_def)
  then have a: "non_null_values tiles = numbers"
    by (simp add: non_null_values_def filter_map comp_def)
  have "filter (\<lambda>v. v \<noteq> None \<and> v \<noteq> Some 0) (map tile_value tiles) = map Some numbers"
    unfolding v using nz by (simp add: insert_filter_out)
  then have b: "tested_values tiles = map Some numbers"
    by (simp add: tested_values_def filter_map comp_def)
  from rp mn nn a b show ?thesis by blast
qed

text \<open>
  C10. On every board that the generator returns, whatever the options, the values that
  are not \<^verbatim>\<open>None\<close> form the same multiset as the pool \<^verbatim>\<open>_numbers\<close>.
\<close>

theorem values_are_the_pool:
  assumes "Board_generate options st = Some (Inr tiles, st')"
  shows "mset (non_null_values tiles) = mset Board_numbers"
  using generate_values [OF assms] by auto

theorem values_are_the_pool_witness:
  "Board_generate all_random zero_state =
     Some (Inr (tiles_from zero_data_shuffled),
           \<lparr>random_state = sconst 0, self_ports = Some zero_ports_shuffled\<rparr>) \<and>
   non_null_values (tiles_from zero_data_shuffled) =
     [2, 6, 3, 8, 10, 9, 12, 11, 4, 8, 10, 9, 4, 5, 6, 3, 11, 5] \<and>
   mset (non_null_values (tiles_from zero_data_shuffled)) = mset Board_numbers"
proof -
  have "non_null_values (tiles_from zero_data_shuffled) =
      [2, 6, 3, 8, 10, 9, 12, 11, 4, 8, 10, 9, 4, 5, 6, 3, 11, 5]"
    by (simp add: tiles_zero_shuffled non_null_values_def)
  with values_are_the_pool [OF run_all_random] run_all_random
  show ?thesis by simp
qed

text \<open>With production not randomized, the first pass of the loop returns.\<close>

lemma body_returns_unchecked:
  assumes "options ''randomize_production'' = Some False"
    and "options ''randomize_ports'' = Some rpt"
  shows "\<exists>tiles st'. generate_body options st = (Return tiles, st')"
  using assms by (simp add: generate_body_def Let_def split: prod.splits)

lemma generate_returns_unchecked:
  assumes "options ''randomize_production'' = Some False"
    and "options ''randomize_ports'' = Some rpt"
  shows "\<exists>tiles st'. Board_generate options st = Some (Inr tiles, st')"
proof -
  from body_returns_unchecked [OF assms] obtain tiles st'
    where "generate_body options st = (Return tiles, st')" by blast
  then have "Board_generate options st = Some (Inr tiles, st')"
    by (subst Board_generate.simps) simp
  then show ?thesis by blast
qed

text \<open>
  C5. With \<^verbatim>\<open>randomize_production\<close> and \<^verbatim>\<open>randomize_ports\<close> both false the generator
  returns a board; the values of its tiles that are not \<^verbatim>\<open>None\<close>, in board order, are
  the list \<^verbatim>\<open>_numbers\<close> (so is the list the test builds), and the terrain letters occur
  4, 4, 4, 3, 3 and 1 times for F, P, H, M, C and D.
\<close>

theorem fixed_production_board:
  assumes "options ''randomize_production'' = Some False"
    and "options ''randomize_ports'' = Some False"
  shows "\<exists>tiles st'. Board_generate options st = Some (Inr tiles, st') \<and>
           non_null_values tiles = Board_numbers \<and>
           tested_values tiles = map Some Board_numbers \<and>
           map (count_list (map tile_terrain tiles)) [''F'', ''P'', ''H'', ''M'', ''C'', ''D'']
             = [4, 4, 4, 3, 3, 1]"
proof -
  from generate_returns_unchecked [OF assms] obtain tiles st'
    where run: "Board_generate options st = Some (Inr tiles, st')" by blast
  from generate_values [OF run] assms(1)
  have v: "non_null_values tiles = Board_numbers \<and> tested_values tiles = map Some Board_numbers"
    by auto
  from generate_columns [OF run] obtain terrain k where
    mt: "mset terrain = mset Board_terrain" and
    t: "map tile_terrain tiles = list_insert terrain k ''D''"
    by blast
  have "mset (map tile_terrain tiles) = add_mset ''D'' (mset Board_terrain)"
    unfolding t by (simp only: insert_mset mt)
  then have "count_list (map tile_terrain tiles) c = count (add_mset ''D'' (mset Board_terrain)) c"
    for c by (metis count_mset)
  then have c: "map (count_list (map tile_terrain tiles)) [''F'', ''P'', ''H'', ''M'', ''C'', ''D'']
             = [4, 4, 4, 3, 3, 1]"
    by (simp add: Board_terrain_list)
  show ?thesis
    by (rule exI [where x = tiles], rule exI [where x = st']) (use run v c in \<open>simp only: simp_thms\<close>)
qed

theorem fixed_production_board_witness:
  "none_random ''randomize_production'' = Some False \<and>
   none_random ''randomize_ports'' = Some False \<and>
   Board_generate none_random zero_state =
     Some (Inr (tiles_from zero_data_fixed),
           \<lparr>random_state = sconst 0, self_ports = Some zero_ports_fixed\<rparr>) \<and>
   non_null_values (tiles_from zero_data_fixed) = Board_numbers \<and>
   tested_values (tiles_from zero_data_fixed) = map Some Board_numbers \<and>
   map (count_list (map tile_terrain (tiles_from zero_data_fixed)))
     [''F'', ''P'', ''H'', ''M'', ''C'', ''D''] = [4, 4, 4, 3, 3, 1]"
proof -
  have a: "none_random ''randomize_production'' = Some False"
    and b: "none_random ''randomize_ports'' = Some False"
    by (simp_all add: none_random_def)
  from fixed_production_board [OF a b, of zero_state] a b run_none_random
  show ?thesis by auto
qed


section \<open>Options that are missing\<close>

text \<open>
  C3. When \<^verbatim>\<open>'randomize_production'\<close> or \<^verbatim>\<open>'randomize_ports'\<close> is not a key of the
  options, the generator fails: the subscription of the dictionary raises for a missing
  key (Python's \<^verbatim>\<open>KeyError\<close>). It does so in the first pass of the loop, and the only
  state that has changed by then is the random generator: \<^verbatim>\<open>self.ports\<close> has not been
  assigned, and the constructor \<^verbatim>\<open>Board(options)\<close> raises the same exception instead
  of returning a board.
\<close>

theorem missing_option_fails:
  assumes "options ''randomize_production'' = None \<or> options ''randomize_ports'' = None"
  shows "\<exists>key r.
           key \<in> {''randomize_production'', ''randomize_ports''} \<and> options key = None \<and>
           generate_body options st = (Raise (KeyError key), st\<lparr>random_state := r\<rparr>) \<and>
           Board_generate options st = Some (Inl (KeyError key), st\<lparr>random_state := r\<rparr>) \<and>
           Board_init options None graph center (random_state st) = Some (Inl (KeyError key), r)"
proof -
  have "\<exists>key r. key \<in> {''randomize_production'', ''randomize_ports''} \<and> options key = None \<and>
      generate_body options st0 = (Raise (KeyError key), st0\<lparr>random_state := r\<rparr>)" for st0
  proof (cases "options ''randomize_production''")
    case None
    then show ?thesis
      by (auto simp: generate_body_def split: prod.splits)
  next
    case (Some rp)
    with assms have "options ''randomize_ports'' = None" by simp
    with Some show ?thesis
      by (auto simp: generate_body_def Let_def split: prod.splits)
  qed
  note body = this
  from body [of st] obtain key r where
    key: "key \<in> {''randomize_production'', ''randomize_ports''}" "options key = None" and
    b: "generate_body options st = (Raise (KeyError key), st\<lparr>random_state := r\<rparr>)"
    by blast
  from b have g: "Board_generate options st = Some (Inl (KeyError key), st\<lparr>random_state := r\<rparr>)"
    by (subst Board_generate.simps) simp
  from body [of "\<lparr>random_state = random_state st, self_ports = None\<rparr>"] obtain key' r' where
    b': "generate_body options \<lparr>random_state = random_state st, self_ports = None\<rparr> =
          (Raise (KeyError key'), \<lparr>random_state = r', self_ports = None\<rparr>)"
    by auto
  have same: "fst (generate_body options s1) = fst (generate_body options s2) \<and>
      random_state (snd (generate_body options s1)) = random_state (snd (generate_body options s2))"
    if "random_state s1 = random_state s2" for s1 s2
    using that
    by (auto simp: generate_body_def Let_def split: prod.splits option.splits sum.splits)
  from same [of st "\<lparr>random_state = random_state st, self_ports = None\<rparr>"] b b'
  have "key' = key" "r' = r" by simp_all
  with b' have "Board_generate options \<lparr>random_state = random_state st, self_ports = None\<rparr> =
      Some (Inl (KeyError key), \<lparr>random_state = r, self_ports = None\<rparr>)"
    by (subst Board_generate.simps) simp
  then have "Board_init options None graph center (random_state st) = Some (Inl (KeyError key), r)"
    by (simp add: Board_init_def)
  with key b g show ?thesis by blast
qed

theorem missing_option_fails_witness:
  "([''randomize_production'' \<mapsto> True] ''randomize_production'' = None \<or>
    [''randomize_production'' \<mapsto> True] ''randomize_ports'' = None) \<and>
   Board_generate [''randomize_production'' \<mapsto> True] zero_state =
     Some (Inl (KeyError ''randomize_ports''), zero_state)"
proof -
  have a: "[''randomize_production'' \<mapsto> True] ''randomize_production'' = None \<or>
    [''randomize_production'' \<mapsto> True] ''randomize_ports'' = None"
    by simp
  from missing_option_fails [OF a, of zero_state None None] obtain key r where
    "key \<in> {''randomize_production'', ''randomize_ports''}"
    "[''randomize_production'' \<mapsto> True] key = None"
    "generate_body [''randomize_production'' \<mapsto> True] zero_state =
       (Raise (KeyError key), zero_state\<lparr>random_state := r\<rparr>)"
    "Board_generate [''randomize_production'' \<mapsto> True] zero_state =
       Some (Inl (KeyError key), zero_state\<lparr>random_state := r\<rparr>)"
    by blast
  moreover have "generate_body [''randomize_production'' \<mapsto> True] zero_state =
       (Raise (KeyError ''randomize_ports''), zero_state)"
    by (simp add: generate_body_def zero_state_def shuffle_terrain_zero shuffle_numbers_zero)
  ultimately have "Board_generate [''randomize_production'' \<mapsto> True] zero_state =
       Some (Inl (KeyError ''randomize_ports''), zero_state)"
    by simp
  with a show ?thesis by blast
qed


section \<open>The designated center tile\<close>

lemma generated_tile_at:
  assumes "Board_generate options st = Some (Inr tiles, st')" and "j < 19"
  shows "j < length tiles \<and> tile_id (tiles ! j) = int j + 1"
proof -
  from generate_columns [OF assms(1)]
  have l: "length tiles = 19" and ids: "map tile_id tiles = [1..19]" by auto
  have "tile_id (tiles ! j) = map tile_id tiles ! j"
    using assms(2) l by simp
  also have "\<dots> = 1 + int j"
    unfolding ids using assms(2) by (intro nth_upto) simp
  finally show ?thesis using assms(2) l by simp
qed

lemma tiles_zero_fixed:
  "tiles_from zero_data_fixed =
     [\<lparr>tile_id = 1, tile_terrain = ''D'', tile_value = None\<rparr>,
      \<lparr>tile_id = 2, tile_terrain = ''F'', tile_value = Some 5\<rparr>,
      \<lparr>tile_id = 3, tile_terrain = ''F'', tile_value = Some 2\<rparr>,
      \<lparr>tile_id = 4, tile_terrain = ''F'', tile_value = Some 6\<rparr>,
      \<lparr>tile_id = 5, tile_terrain = ''P'', tile_value = Some 3\<rparr>,
      \<lparr>tile_id = 6, tile_terrain = ''P'', tile_value = Some 8\<rparr>,
      \<lparr>tile_id = 7, tile_terrain = ''P'', tile_value = Some 10\<rparr>,
      \<lparr>tile_id = 8, tile_terrain = ''P'', tile_value = Some 9\<rparr>,
      \<lparr>tile_id = 9, tile_terrain = ''H'', tile_value = Some 12\<rparr>,
      \<lparr>tile_id = 10, tile_terrain = ''H'', tile_value = Some 11\<rparr>,
      \<lparr>tile_id = 11, tile_terrain = ''H'', tile_value = Some 4\<rparr>,
      \<lparr>tile_id = 12, tile_terrain = ''H'', tile_value = Some 8\<rparr>,
      \<lparr>tile_id = 13, tile_terrain = ''M'', tile_value = Some 10\<rparr>,
      \<lparr>tile_id = 14, tile_terrain = ''M'', tile_value = Some 9\<rparr>,
      \<lparr>tile_id = 15, tile_terrain = ''M'', tile_value = Some 4\<rparr>,
      \<lparr>tile_id = 16, tile_terrain = ''C'', tile_value = Some 5\<rparr>,
      \<lparr>tile_id = 17, tile_terrain = ''C'', tile_value = Some 6\<rparr>,
      \<lparr>tile_id = 18, tile_terrain = ''C'', tile_value = Some 3\<rparr>,
      \<lparr>tile_id = 19, tile_terrain = ''F'', tile_value = Some 11\<rparr>]"
  by (simp add: tiles_from_def zero_data_fixed_def)

lemma new_none_random:
  "Board_new none_random (sconst 0) =
     Some (Inr \<lparr>board_options = none_random,
                board_tiles = tiles_from zero_data_fixed,
                board_ports = Some zero_ports_fixed,
                center_tile = \<lparr>tile_id = 2, tile_terrain = ''F'', tile_value = Some 5\<rparr>,
                board_graph = Board_graph\<rparr>,
           sconst 0)"
proof -
  have "py_nth (tiles_from zero_data_fixed) 1 =
      Inr \<lparr>tile_id = 2, tile_terrain = ''F'', tile_value = Some 5\<rparr>"
    by (simp add: tiles_zero_fixed py_nth_def)
  then show ?thesis
    using run_none_random
    by (simp add: Board_new_def Board_init_def zero_state_def)
qed

lemma init_none_random_fallback:
  "Board_init none_random None None None (sconst 0) =
     Some (Inr \<lparr>board_options = none_random,
                board_tiles = tiles_from zero_data_fixed,
                board_ports = Some zero_ports_fixed,
                center_tile = \<lparr>tile_id = 11, tile_terrain = ''H'', tile_value = Some 4\<rparr>,
                board_graph = Board_graph\<rparr>,
           sconst 0)"
proof -
  have "py_nth (tiles_from zero_data_fixed) 10 =
      Inr \<lparr>tile_id = 11, tile_terrain = ''H'', tile_value = Some 4\<rparr>"
    by (simp add: tiles_zero_fixed py_nth_def)
  then show ?thesis
    using run_none_random
    by (simp add: Board_init_def zero_state_def)
qed

text \<open>
  C2. The designated tile is meant to be the tile at the conventional slot 10 whenever the
  caller supplies no center index. The constructor does not achieve this. Its parameter
  is declared \<^verbatim>\<open>center=1\<close>, so in the call \<^verbatim>\<open>Board(options)\<close> the fallback of
  \<^verbatim>\<open>center or 10\<close> is never taken and \<^verbatim>\<open>center_tile\<close> is \<^verbatim>\<open>tiles[1]\<close>, the tile with
  id 2. Where the fallback is taken (\<^verbatim>\<open>center=None\<close>), the 10 is used as a list index
  and selects the tile with id 11. In the sample run with both options off, the tile at
  slot 10 is neither of the two.
\<close>

theorem center_tile_misses_slot_10:
  "Board_new none_random (sconst 0) =
     Some (Inr \<lparr>board_options = none_random,
                board_tiles = tiles_from zero_data_fixed,
                board_ports = Some zero_ports_fixed,
                center_tile = \<lparr>tile_id = 2, tile_terrain = ''F'', tile_value = Some 5\<rparr>,
                board_graph = Board_graph\<rparr>,
           sconst 0) \<and>
   Board_init none_random None None None (sconst 0) =
     Some (Inr \<lparr>board_options = none_random,
                board_tiles = tiles_from zero_data_fixed,
                board_ports = Some zero_ports_fixed,
                center_tile = \<lparr>tile_id = 11, tile_terrain = ''H'', tile_value = Some 4\<rparr>,
                board_graph = Board_graph\<rparr>,
           sconst 0) \<and>
   py_nth (tiles_from zero_data_fixed) (10 - 1) =
     Inr \<lparr>tile_id = 10, tile_terrain = ''H'', tile_value = Some 11\<rparr>"
proof -
  have "py_nth (tiles_from zero_data_fixed) (10 - 1) =
     Inr \<lparr>tile_id = 10, tile_terrain = ''H'', tile_value = Some 11\<rparr>"
    by (simp add: tiles_zero_fixed py_nth_def)
  with new_none_random init_none_random_fallback show ?thesis by simp
qed

section \<open>Edges and directions\<close>

text \<open>
  A graph whose direction strings are all keys of \<^verbatim>\<open>_direction_pairs\<close> has no edge
  on which \<^verbatim>\<open>invert\<close> raises; \<^verbatim>\<open>_edges_for\<close> then returns the stored edges that start
  at the tile, followed by the turned edges that end there.
\<close>

lemma map_raise_invert:
  assumes "\<forall>e \<in> set es. snd (snd e) \<in> dom direction_pairs"
  shows "map_raise invert es =
           Inr (map (\<lambda>e. (fst (snd e), fst e, the (direction_pairs (snd (snd e))))) es)"
  using assms
proof (induction es)
  case Nil
  show ?case by simp
next
  case (Cons e es)
  obtain a b d where e: "e = (a, b, d)" by (cases e)
  with Cons.prems obtain d' where "direction_pairs d = Some d'" by auto
  with e Cons show ?case by (simp add: invert_def)
qed

lemma edges_for_known:
  assumes "\<forall>e \<in> set graph. snd (snd e) \<in> dom direction_pairs"
  shows "edges_for graph tile =
           Inr (filter (\<lambda>e. fst e = tile_id tile) graph @
                map (\<lambda>e. (fst (snd e), fst e, the (direction_pairs (snd (snd e)))))
                  (filter (\<lambda>e. fst (snd e) = tile_id tile) graph))"
proof -
  have "\<forall>e \<in> set (filter (\<lambda>e. fst (snd e) = tile_id tile) graph).
          snd (snd e) \<in> dom direction_pairs"
    using assms by simp
  from map_raise_invert [OF this] show ?thesis
    by (simp add: edges_for_def)
qed

lemma edges_for_targets:
  assumes "\<forall>e \<in> set graph. snd (snd e) \<in> dom direction_pairs"
    and "edges_for graph tile = Inr es"
  shows "set (map (fst \<circ> snd) es) = {b. adjacent graph (tile_id tile) b}"
    and "\<forall>e \<in> set es. fst e = tile_id tile"
proof -
  from edges_for_known [OF assms(1), of tile] assms(2)
  have es: "es = filter (\<lambda>e. fst e = tile_id tile) graph @
                map (\<lambda>e. (fst (snd e), fst e, the (direction_pairs (snd (snd e)))))
                  (filter (\<lambda>e. fst (snd e) = tile_id tile) graph)"
    by simp
  show "set (map (fst \<circ> snd) es) = {b. adjacent graph (tile_id tile) b}"
    unfolding es adjacent_def list_ex_iff by force
  show "\<forall>e \<in> set es. fst e = tile_id tile"
    unfolding es by auto
qed

lemma direction_found:
  assumes "\<forall>e \<in> set graph. snd (snd e) \<in> dom direction_pairs"
  shows "(\<exists>d. direction graph src dst = Inr d) = adjacent graph (tile_id src) (tile_id dst)"
    and "\<not> adjacent graph (tile_id src) (tile_id dst) \<Longrightarrow>
           direction graph src dst = Inl StopIteration"
proof -
  obtain es where es: "edges_for graph src = Inr es"
    using edges_for_known [OF assms] by blast
  from edges_for_targets(1) [OF assms es]
  have t: "(tile_id dst \<in> set (map (fst \<circ> snd) es)) = adjacent graph (tile_id src) (tile_id dst)"
    by simp
  have f: "(find (\<lambda>e. fst (snd e) = tile_id dst) es = None) =
      (tile_id dst \<notin> set (map (fst \<circ> snd) es))"
    by (force simp: find_None_iff)
  show "(\<exists>d. direction graph src dst = Inr d) = adjacent graph (tile_id src) (tile_id dst)"
    using es t f by (auto simp: direction_def split: option.splits)
  show "direction graph src dst = Inl StopIteration"
    if "\<not> adjacent graph (tile_id src) (tile_id dst)"
    using that es t f by (auto simp: direction_def split: option.splits)
qed

lemma Board_graph_directions: "\<forall>e \<in> set Board_graph. snd (snd e) \<in> dom direction_pairs"
  by (simp add: Board_graph_def direction_pairs_def)

text \<open>
  C4. For two tiles whose ids are not joined by an edge of the fixed graph,
  \<^verbatim>\<open>direction\<close> fails: \<^verbatim>\<open>next\<close> finds no edge and raises (Python's
  \<^verbatim>\<open>StopIteration\<close>).
\<close>

theorem direction_not_adjacent:
  assumes "\<not> adjacent Board_graph (tile_id src) (tile_id dst)"
  shows "direction Board_graph src dst = Inl StopIteration"
  using direction_found(2) [OF Board_graph_directions assms] .

theorem direction_not_adjacent_witness:
  "\<not> adjacent Board_graph
        (tile_id \<lparr>tile_id = 1, tile_terrain = ''D'', tile_value = None\<rparr>)
        (tile_id \<lparr>tile_id = 5, tile_terrain = ''P'', tile_value = Some 8\<rparr>) \<and>
   direction Board_graph \<lparr>tile_id = 1, tile_terrain = ''D'', tile_value = None\<rparr>
     \<lparr>tile_id = 5, tile_terrain = ''P'', tile_value = Some 8\<rparr> = Inl StopIteration"
proof -
  have a: "\<not> adjacent Board_graph
        (tile_id \<lparr>tile_id = 1, tile_terrain = ''D'', tile_value = None\<rparr>)
        (tile_id \<lparr>tile_id = 5, tile_terrain = ''P'', tile_value = Some 8\<rparr>)"
    by (simp add: adjacent_def Board_graph_def)
  from direction_not_adjacent [OF a] a show ?thesis by blast
qed


lemma direction_ids:
  assumes "tile_id src = tile_id src'" and "tile_id dst = tile_id dst'"
  shows "direction graph src dst = direction graph src' dst'"
  unfolding direction_def edges_for_def assms ..

text \<open>
  Every stored edge of the fixed graph, followed forwards and backwards: forwards the
  direction found is the stored one, backwards it is its partner in
  \<^verbatim>\<open>_direction_pairs\<close>, and the two are partners of each other.
\<close>

lemma stored_edges_both_ways:
  "list_all
     (\<lambda>e. direction Board_graph
             \<lparr>tile_id = fst e, tile_terrain = [], tile_value = None\<rparr>
             \<lparr>tile_id = fst (snd e), tile_terrain = [], tile_value = None\<rparr>
             = Inr (snd (snd e)) \<and>
           map_option
             (\<lambda>d'. (direction Board_graph
                      \<lparr>tile_id = fst (snd e), tile_terrain = [], tile_value = None\<rparr>
                      \<lparr>tile_id = fst e, tile_terrain = [], tile_value = None\<rparr>,
                    direction_pairs d'))
             (direction_pairs (snd (snd e)))
             = Some (Inr (the (direction_pairs (snd (snd e)))), Some (snd (snd e))))
     Board_graph"
  by code_simp

text \<open>
  C7. For two tiles that are adjacent in the fixed graph, \<^verbatim>\<open>direction(a, b)\<close> and
  \<^verbatim>\<open>direction(b, a)\<close> both succeed, and \<^verbatim>\<open>_direction_pairs\<close> maps each of the two
  directions to the other.
\<close>

theorem direction_mutual_inverse:
  assumes "adjacent Board_graph (tile_id a) (tile_id b)"
  shows "\<exists>d d'. direction Board_graph a b = Inr d \<and> direction Board_graph b a = Inr d' \<and>
           direction_pairs d = Some d' \<and> direction_pairs d' = Some d"
proof -
  from assms obtain e where e: "e \<in> set Board_graph" and
    ends: "(fst e = tile_id a \<and> fst (snd e) = tile_id b) \<or>
           (fst e = tile_id b \<and> fst (snd e) = tile_id a)"
    by (auto simp: adjacent_def list_ex_iff)
  let ?from = "\<lparr>tile_id = fst e, tile_terrain = [], tile_value = None\<rparr>"
  let ?to = "\<lparr>tile_id = fst (snd e), tile_terrain = [], tile_value = None\<rparr>"
  from stored_edges_both_ways e have
    fwd: "direction Board_graph ?from ?to = Inr (snd (snd e))" and
    m: "map_option (\<lambda>d'. (direction Board_graph ?to ?from, direction_pairs d'))
          (direction_pairs (snd (snd e)))
          = Some (Inr (the (direction_pairs (snd (snd e)))), Some (snd (snd e)))"
    unfolding list_all_iff by blast+
  from m obtain d' where
    p1: "direction_pairs (snd (snd e)) = Some d'" and
    bwd: "direction Board_graph ?to ?from = Inr d'" and
    p2: "direction_pairs d' = Some (snd (snd e))"
    by (cases "direction_pairs (snd (snd e))") simp_all
  from ends show ?thesis
  proof
    assume *: "fst e = tile_id a \<and> fst (snd e) = tile_id b"
    have "direction Board_graph a b = direction Board_graph ?from ?to"
      by (rule direction_ids) (simp_all add: *)
    moreover have "direction Board_graph b a = direction Board_graph ?to ?from"
      by (rule direction_ids) (simp_all add: *)
    ultimately have "direction Board_graph a b = Inr (snd (snd e))"
      and "direction Board_graph b a = Inr d'"
      using fwd bwd by simp_all
    with p1 p2 show ?thesis by blast
  next
    assume *: "fst e = tile_id b \<and> fst (snd e) = tile_id a"
    have "direction Board_graph b a = direction Board_graph ?from ?to"
      by (rule direction_ids) (simp_all add: *)
    moreover have "direction Board_graph a b = direction Board_graph ?to ?from"
      by (rule direction_ids) (simp_all add: *)
    ultimately have "direction Board_graph b a = Inr (snd (snd e))"
      and "direction Board_graph a b = Inr d'"
      using fwd bwd by simp_all
    with p1 p2 show ?thesis by blast
  qed
qed

theorem direction_mutual_inverse_witness:
  "adjacent Board_graph
     (tile_id \<lparr>tile_id = 16, tile_terrain = ''C'', tile_value = Some 6\<rparr>)
     (tile_id \<lparr>tile_id = 7, tile_terrain = ''P'', tile_value = Some 9\<rparr>) \<and>
   direction Board_graph \<lparr>tile_id = 16, tile_terrain = ''C'', tile_value = Some 6\<rparr>
     \<lparr>tile_id = 7, tile_terrain = ''P'', tile_value = Some 9\<rparr> = Inr ''SE'' \<and>
   direction Board_graph \<lparr>tile_id = 7, tile_terrain = ''P'', tile_value = Some 9\<rparr>
     \<lparr>tile_id = 16, tile_terrain = ''C'', tile_value = Some 6\<rparr> = Inr ''NW'' \<and>
   direction_pairs ''SE'' = Some ''NW'' \<and> direction_pairs ''NW'' = Some ''SE''"
proof -
  let ?a = "\<lparr>tile_id = 16, tile_terrain = ''C'', tile_value = Some 6\<rparr>"
  let ?b = "\<lparr>tile_id = 7, tile_terrain = ''P'', tile_value = Some 9\<rparr>"
  have adj: "adjacent Board_graph (tile_id ?a) (tile_id ?b)"
    by (simp add: adjacent_def Board_graph_def)
  have ba: "direction Board_graph ?b ?a = Inr ''NW''"
    by code_simp
  have p: "direction_pairs ''NW'' = Some ''SE''"
    by (simp add: direction_pairs_def)
  from direction_mutual_inverse [OF adj] obtain d d' where
    "direction Board_graph ?a ?b = Inr d" "direction Board_graph ?b ?a = Inr d'"
    "direction_pairs d = Some d'" "direction_pairs d' = Some d"
    by blast
  with ba p have "direction Board_graph ?a ?b = Inr ''SE''" "direction_pairs ''SE'' = Some ''NW''"
    by simp_all
  with adj ba p show ?thesis by blast
qed


lemma edges_for_ids:
  assumes "tile_id tile = tile_id tile'"
  shows "edges_for graph tile = edges_for graph tile'"
  unfolding edges_for_def assms ..

lemma count_list_distinct:
  "distinct xs \<Longrightarrow> count_list xs x = (if x \<in> set xs then 1 else 0)"
  by (induction xs) auto

lemma edges_of_slots_distinct:
  "list_all
     (\<lambda>s. case edges_for Board_graph \<lparr>tile_id = s, tile_terrain = [], tile_value = None\<rparr> of
            Inl err \<Rightarrow> False
          | Inr es \<Rightarrow> distinct es \<and> distinct (map (fst \<circ> snd) es))
     [1..19]"
  by code_simp

text \<open>
  C8. For a tile whose id is one of the slots 1, ..., 19, \<^verbatim>\<open>_edges_for\<close> returns the
  stored edges that start at the tile followed by the stored edges that end there, turned
  round with the partner direction. The list has no duplicates, all its edges start at
  the tile, and each slot is the target of exactly one of them if it is adjacent to the
  tile in the fixed graph, and of none otherwise.
\<close>

theorem edges_for_each_neighbour_once:
  assumes "1 \<le> tile_id tile" and "tile_id tile \<le> 19"
  shows "\<exists>es. edges_for Board_graph tile = Inr es \<and>
           es = filter (\<lambda>e. fst e = tile_id tile) Board_graph @
                map (\<lambda>e. (fst (snd e), fst e, the (direction_pairs (snd (snd e)))))
                  (filter (\<lambda>e. fst (snd e) = tile_id tile) Board_graph) \<and>
           distinct es \<and>
           (\<forall>e \<in> set es. fst e = tile_id tile) \<and>
           (\<forall>b. count_list (map (fst \<circ> snd) es) b =
                  (if adjacent Board_graph (tile_id tile) b then 1 else 0))"
proof -
  let ?t = "\<lparr>tile_id = tile_id tile, tile_terrain = [], tile_value = None\<rparr>"
  have same: "edges_for Board_graph tile = edges_for Board_graph ?t"
    by (rule edges_for_ids) simp
  from edges_for_known [OF Board_graph_directions, of ?t] obtain es where
    es: "edges_for Board_graph ?t = Inr es" by blast
  from assms have "tile_id tile \<in> set [1..19]" by simp
  with edges_of_slots_distinct
  have "case edges_for Board_graph ?t of
          Inl err \<Rightarrow> False
        | Inr es \<Rightarrow> distinct es \<and> distinct (map (fst \<circ> snd) es)"
    unfolding list_all_iff by blast
  with es have d: "distinct es" "distinct (map (fst \<circ> snd) es)"
    by simp_all
  from es same have es': "edges_for Board_graph tile = Inr es" by simp
  note t = edges_for_targets [OF Board_graph_directions es']
  have "count_list (map (fst \<circ> snd) es) b =
          (if adjacent Board_graph (tile_id tile) b then 1 else 0)" for b
    using count_list_distinct [OF d(2), of b] t(1) by auto
  moreover from edges_for_known [OF Board_graph_directions, of tile] es'
  have "es = filter (\<lambda>e. fst e = tile_id tile) Board_graph @
                map (\<lambda>e. (fst (snd e), fst e, the (direction_pairs (snd (snd e)))))
                  (filter (\<lambda>e. fst (snd e) = tile_id tile) Board_graph)"
    by simp
  ultimately show ?thesis using es' d(1) t(2) by blast
qed

theorem edges_for_each_neighbour_once_witness:
  "1 \<le> tile_id \<lparr>tile_id = 19, tile_terrain = ''F'', tile_value = Some 5\<rparr> \<and>
   tile_id \<lparr>tile_id = 19, tile_terrain = ''F'', tile_value = Some 5\<rparr> \<le> 19 \<and>
   edges_for Board_graph \<lparr>tile_id = 19, tile_terrain = ''F'', tile_value = Some 5\<rparr> =
     Inr [(19, 13, ''NW''), (19, 14, ''W''), (19, 15, ''SW''), (19, 16, ''SE''),
          (19, 17, ''E''), (19, 18, ''NE'')] \<and>
   distinct [(19, 13, ''NW''), (19, 14, ''W''), (19, 15, ''SW''), (19, 16, ''SE''),
          (19, 17, ''E''), (19::int, 18::int, ''NE'')] \<and>
   adjacent Board_graph 19 16 \<and>
   count_list (map (fst \<circ> snd) [(19, 13, ''NW''), (19, 14, ''W''), (19, 15, ''SW''),
          (19, 16, ''SE''), (19, 17, ''E''), (19::int, 18::int, ''NE'')]) 16 = 1"
proof -
  let ?t = "\<lparr>tile_id = 19, tile_terrain = ''F'', tile_value = Some 5\<rparr>"
  have a: "1 \<le> tile_id ?t" and b: "tile_id ?t \<le> 19" by simp_all
  have e: "edges_for Board_graph ?t =
     Inr [(19, 13, ''NW''), (19, 14, ''W''), (19, 15, ''SW''), (19, 16, ''SE''),
          (19, 17, ''E''), (19, 18, ''NE'')]"
    by code_simp
  have adj: "adjacent Board_graph 19 16"
    by (simp add: adjacent_def Board_graph_def)
  from edges_for_each_neighbour_once [OF a b] obtain es where
    1: "edges_for Board_graph ?t = Inr es" and
    2: "distinct es" and
    3: "\<forall>b. count_list (map (fst \<circ> snd) es) b =
              (if adjacent Board_graph (tile_id ?t) b then 1 else 0)"
    by blast
  from 1 e have es: "es = [(19, 13, ''NW''), (19, 14, ''W''), (19, 15, ''SW''),
      (19, 16, ''SE''), (19, 17, ''E''), (19, 18, ''NE'')]"
    by simp
  from 3 adj have "count_list (map (fst \<circ> snd) es) 16 = 1"
    by simp
  with 2 have "distinct [(19, 13, ''NW''), (19, 14, ''W''), (19, 15, ''SW''), (19, 16, ''SE''),
          (19, 17, ''E''), (19::int, 18::int, ''NE'')]"
    and "count_list (map (fst \<circ> snd) [(19, 13, ''NW''), (19, 14, ''W''), (19, 15, ''SW''),
          (19, 16, ''SE''), (19, 17, ''E''), (19::int, 18::int, ''NE'')]) 16 = 1"
    unfolding es by blast+
  with a b e adj show ?thesis by blast
qed

lemma consecutive_slots_adjacent:
  "list_all (\<lambda>k. adjacent Board_graph k (k + 1)) [1..18]"
  by code_simp

text \<open>
  C9. The tiles of a generated board are stored in the order of their ids 1, ..., 19, and
  the slots \<open>k\<close> and \<open>k + 1\<close> are adjacent in the fixed graph for every \<open>k\<close> from 1 to
  18; so \<^verbatim>\<open>direction\<close> succeeds on every two consecutive tiles of the board, which is
  what \<^verbatim>\<open>draw\<close> asks of it.
\<close>

theorem traversal_order_adjacent:
  assumes "Board_generate options st = Some (Inr tiles, st')"
  shows "map tile_id tiles = [1..19] \<and>
         (\<forall>k \<in> {1..18}. adjacent Board_graph k (k + 1)) \<and>
         (\<forall>j < 18. \<exists>d. direction Board_graph (tiles ! j) (tiles ! Suc j) = Inr d)"
proof -
  from generate_columns [OF assms] have ids: "map tile_id tiles = [1..19]" by auto
  have adj: "adjacent Board_graph k (k + 1)" if "k \<in> {1..18}" for k
  proof -
    from that have "k \<in> set [1..18]" by simp
    with consecutive_slots_adjacent show ?thesis unfolding list_all_iff by blast
  qed
  have "\<exists>d. direction Board_graph (tiles ! j) (tiles ! Suc j) = Inr d" if "j < 18" for j
  proof -
    from that have "j < 19" "Suc j < 19" by simp_all
    from generated_tile_at [OF assms this(1)] generated_tile_at [OF assms this(2)]
    have "tile_id (tiles ! j) = int j + 1" "tile_id (tiles ! Suc j) = (int j + 1) + 1"
      by simp_all
    moreover from that have "int j + 1 \<in> {1..18}" by simp
    then have "adjacent Board_graph (int j + 1) ((int j + 1) + 1)" by (rule adj)
    ultimately have "adjacent Board_graph (tile_id (tiles ! j)) (tile_id (tiles ! Suc j))"
      by (simp only:)
    then show ?thesis
      by (simp add: direction_found(1) [OF Board_graph_directions])
  qed
  with ids adj show ?thesis by blast
qed

theorem traversal_order_adjacent_witness:
  "Board_generate all_random zero_state =
     Some (Inr (tiles_from zero_data_shuffled),
           \<lparr>random_state = sconst 0, self_ports = Some zero_ports_shuffled\<rparr>) \<and>
   map tile_id (tiles_from zero_data_shuffled) = [1..19] \<and>
   (7::int) \<in> {1..18} \<and> adjacent Board_graph 7 (7 + 1) \<and>
   (6::nat) < 18 \<and>
   direction Board_graph (tiles_from zero_data_shuffled ! 6)
     (tiles_from zero_data_shuffled ! Suc 6) = Inr ''NE''"
proof -
  note t = traversal_order_adjacent [OF run_all_random]
  have k: "(7::int) \<in> {1..18}" and j: "(6::nat) < 18" by simp_all
  from t k have adj: "adjacent Board_graph 7 (7 + 1)" by blast
  from t j obtain d where
    d: "direction Board_graph (tiles_from zero_data_shuffled ! 6)
          (tiles_from zero_data_shuffled ! Suc 6) = Inr d"
    by blast
  have "direction Board_graph \<lparr>tile_id = 7, tile_terrain = ''P'', tile_value = Some 9\<rparr>
      \<lparr>tile_id = 8, tile_terrain = ''P'', tile_value = Some 12\<rparr> = Inr ''NE''"
    by code_simp
  then have "direction Board_graph (tiles_from zero_data_shuffled ! 6)
          (tiles_from zero_data_shuffled ! Suc 6) = Inr ''NE''"
    by (simp add: tiles_zero_shuffled)
  with t k j adj run_all_random show ?thesis by blast
qed


end
